theory Spec2Isabelle
  imports Complex_Main "HOL-Library.Word"
begin

unbundle bit_operations_syntax

section \<open>Python values, exceptions and the calls the interpreter answers\<close>

text \<open>
  The values that \<^verbatim>\<open>request.get_json()\<close> yields and that \<^verbatim>\<open>jsonify\<close> serialises:
  \<^verbatim>\<open>None\<close>, booleans, integers, floats, strings, lists and dictionaries. A dictionary
  is kept as the list of its items in insertion order. The float type \<open>'f\<close> is left
  open: no arithmetic is ever done on a coordinate, it is only copied.
\<close>

datatype 'f json =
    JNull
  | JBool bool
  | JInt int
  | JFloat 'f
  | JStr string
  | JArr "'f json list"
  | JObj "(string \<times> 'f json) list"

text \<open>
  Exceptions are instances of Python's class \<^verbatim>\<open>Exception\<close>, the class named by the
  \<^verbatim>\<open>except\<close> clause of \<^verbatim>\<open>process_frame\<close>. \<open>KeyError\<close> carries the missing key, the
  other constructors carry the message. \<open>LibraryError\<close> stands for whatever a call into
  Flask, base64, NumPy, OpenCV or MediaPipe raises, with the text \<^verbatim>\<open>str(e)\<close> gives it.
\<close>

datatype exn =
    KeyError string
  | IndexError string
  | TypeError string
  | AttributeError string
  | LibraryError string

definition quoted :: "string \<Rightarrow> string" where
  "quoted s = CHR 0x27 # s @ [CHR 0x27]"

fun str_exn :: "exn \<Rightarrow> string" where
  "str_exn (KeyError k) = quoted k"
| "str_exn (IndexError m) = m"
| "str_exn (TypeError m) = m"
| "str_exn (AttributeError m) = m"
| "str_exn (LibraryError m) = m"

fun type_name :: "'f json \<Rightarrow> string" where
  "type_name JNull = ''NoneType''"
| "type_name (JBool _) = ''bool''"
| "type_name (JInt _) = ''int''"
| "type_name (JFloat _) = ''float''"
| "type_name (JStr _) = ''str''"
| "type_name (JArr _) = ''list''"
| "type_name (JObj _) = ''dict''"

definition bind_exn :: "exn + 'a \<Rightarrow> ('a \<Rightarrow> exn + 'b) \<Rightarrow> exn + 'b" where
  "bind_exn m k = (case m of Inl e \<Rightarrow> Inl e | Inr v \<Rightarrow> k v)"

text \<open>\<^verbatim>\<open>data[key]\<close> with a string key.\<close>

fun getitem :: "'f json \<Rightarrow> string \<Rightarrow> exn + 'f json" where
  "getitem (JObj kvs) key =
     (case map_of kvs key of None \<Rightarrow> Inl (KeyError key) | Some v \<Rightarrow> Inr v)"
| "getitem (JArr _) key = Inl (TypeError ''list indices must be integers or slices, not str'')"
| "getitem (JStr _) key = Inl (TypeError (''string indices must be integers, not '' @ quoted ''str''))"
| "getitem v key = Inl (TypeError (quoted (type_name v) @ '' object is not subscriptable''))"

text \<open>
  \<^verbatim>\<open>s.split(sep)\<close> of a Python string: one more piece than there are separators. A
  character that is not the separator joins the first piece of what follows (the split
  of the rest is never empty, so the first case of the \<open>case\<close> is never taken).
\<close>

fun str_split :: "char \<Rightarrow> string \<Rightarrow> string list" where
  "str_split sep [] = [[]]"
| "str_split sep (c # cs) =
     (if c = sep then [] # str_split sep cs
      else (case str_split sep cs of [] \<Rightarrow> [[c]] | w # ws \<Rightarrow> (c # w) # ws))"

text \<open>\<^verbatim>\<open>v.split(',')\<close>: only a string has the method.\<close>

fun method_split :: "'f json \<Rightarrow> exn + string list" where
  "method_split (JStr s) = Inr (str_split CHR '','' s)"
| "method_split v =
     Inl (AttributeError (quoted (type_name v) @ '' object has no attribute '' @ quoted ''split''))"

text \<open>\<^verbatim>\<open>xs[i]\<close> on a list with a non-negative literal index.\<close>

definition list_index :: "'a list \<Rightarrow> nat \<Rightarrow> exn + 'a" where
  "list_index xs i = (if i < length xs then Inr (xs ! i) else Inl (IndexError ''list index out of range''))"

section \<open>The detector and its configuration\<close>

record hands_config =
  static_image_mode :: bool
  max_num_hands :: nat
  min_detection_confidence :: real
  min_tracking_confidence :: real

text \<open>\<^verbatim>\<open>hands = mp_hands.Hands(...)\<close> of app.py, lines 13 to 18.\<close>

definition app_hands :: hands_config where
  "app_hands = \<lparr>static_image_mode = False, max_num_hands = 2,
     min_detection_confidence = 0.7, min_tracking_confidence = 0.7\<rparr>"

text \<open>\<^verbatim>\<open>hands = mp_hands.Hands(...)\<close> of hand_tracking.py, lines 8 to 13.\<close>

definition tracking_hands :: hands_config where
  "tracking_hands = \<lparr>static_image_mode = False, max_num_hands = 2,
     min_detection_confidence = 0.7, min_tracking_confidence = 0.7\<rparr>"

text \<open>
  What the detector hands back: a landmark has the attributes \<^verbatim>\<open>x\<close>, \<^verbatim>\<open>y\<close>, \<^verbatim>\<open>z\<close>
  (selectors \<open>lm_x\<close>, \<open>lm_y\<close>, \<open>lm_z\<close>), a hand has the attribute \<^verbatim>\<open>landmark\<close>, and the
  result has \<^verbatim>\<open>multi_hand_landmarks\<close>, which is \<^verbatim>\<open>None\<close> or a list of hands.
\<close>

datatype 'f landmark = Landmark (lm_x: 'f) (lm_y: 'f) (lm_z: 'f)

datatype 'f hand_landmarks = NormalizedLandmarkList (landmark: "'f landmark list")

record 'f results =
  multi_hand_landmarks :: "'f hand_landmarks list option"

type_synonym byte = "8 word"

text \<open>
  The library calls of both paths. \<open>imdecode\<close> is
  \<^verbatim>\<open>cv2.imdecode(np.frombuffer(image_bytes, np.uint8), cv2.IMREAD_COLOR)\<close>, taken from the
  bytes on (\<^verbatim>\<open>np.frombuffer\<close> only views them as an array of \<^verbatim>\<open>uint8\<close>); a frame \<open>'img\<close>
  is whatever it returns, \<^verbatim>\<open>None\<close> included. \<open>process\<close> is \<^verbatim>\<open>hands.process\<close> on the
  detector built from a configuration: the detector keeps a state \<open>'d\<close> between calls.
  \<open>draw_landmarks\<close> is \<^verbatim>\<open>mp_drawing.draw_landmarks(frame, hand_landmarks,
  mp_hands.HAND_CONNECTIONS)\<close>, which draws on the frame in place: it returns the frame
  as it is afterwards.
\<close>

record ('f, 'img, 'd) env =
  b64decode :: "string \<Rightarrow> exn + byte list"
  imdecode :: "byte list \<Rightarrow> exn + 'img"
  cvtColor :: "'img \<Rightarrow> exn + 'img"
  process :: "hands_config \<Rightarrow> 'd \<Rightarrow> 'img \<Rightarrow> (exn + 'f results) \<times> 'd"
  draw_landmarks :: "'img \<Rightarrow> 'f hand_landmarks \<Rightarrow> exn + 'img"

section \<open>The web path: \<^verbatim>\<open>process_frame\<close> of app.py\<close>

record 'f response =
  status :: nat
  body :: "'f json"

text \<open>\<^verbatim>\<open>jsonify(d)\<close>: a response with status 200 whose body is the serialised \<open>d\<close>.\<close>

definition jsonify :: "'f json \<Rightarrow> 'f response" where
  "jsonify d = \<lparr>status = 200, body = d\<rparr>"

text \<open>Line 33: \<^verbatim>\<open>image_data.split(',')[1]\<close>.\<close>

definition image_payload :: "'f json \<Rightarrow> exn + string" where
  "image_payload image_data = bind_exn (method_split image_data) (\<lambda>parts. list_index parts 1)"

text \<open>Lines 33 and 34: the bytes that reach \<^verbatim>\<open>np.frombuffer\<close> and \<^verbatim>\<open>cv2.imdecode\<close>.\<close>

definition image_bytes :: "('f, 'img, 'd) env \<Rightarrow> 'f json \<Rightarrow> exn + byte list" where
  "image_bytes E image_data = bind_exn (image_payload image_data) (b64decode E)"

text \<open>Lines 29 to 41: from the parsed request to the RGB frame.\<close>

definition rgb_frame :: "('f, 'img, 'd) env \<Rightarrow> exn + 'f json \<Rightarrow> exn + 'img" where
  "rgb_frame E request_json =
     bind_exn request_json (\<lambda>data.
     bind_exn (getitem data ''image'') (\<lambda>image_data.
     bind_exn (image_bytes E image_data) (\<lambda>bytes.
     bind_exn (imdecode E bytes) (\<lambda>frame.
     cvtColor E frame))))"

text \<open>Lines 29 to 44: line 44 calls the detector, which may change its state.\<close>

definition detect :: "('f, 'img, 'd) env \<Rightarrow> 'd \<Rightarrow> exn + 'f json \<Rightarrow> (exn + 'f results) \<times> 'd" where
  "detect E d request_json =
     (case rgb_frame E request_json of
        Inl e \<Rightarrow> (Inl e, d)
      | Inr rgb \<Rightarrow> process E app_hands d rgb)"

text \<open>Lines 52 to 56: the dictionary appended for one landmark.\<close>

definition landmark_record :: "'f landmark \<Rightarrow> 'f json" where
  "landmark_record l = JObj [(''x'', JFloat (lm_x l)), (''y'', JFloat (lm_y l)), (''z'', JFloat (lm_z l))]"

text \<open>Lines 50 to 56: the inner loop, appending to \<^verbatim>\<open>landmarks\<close>.\<close>

fun hand_loop :: "'f json list \<Rightarrow> 'f landmark list \<Rightarrow> 'f json list" where
  "hand_loop landmarks [] = landmarks"
| "hand_loop landmarks (l # ls) = hand_loop (landmarks @ [landmark_record l]) ls"

text \<open>Lines 49 to 57: the outer loop, appending to \<^verbatim>\<open>landmarks_data\<close>.\<close>

fun hands_loop :: "'f json list \<Rightarrow> 'f hand_landmarks list \<Rightarrow> 'f json list" where
  "hands_loop landmarks_data [] = landmarks_data"
| "hands_loop landmarks_data (h # hs) =
     hands_loop (landmarks_data @ [JArr (hand_loop [] (landmark h))]) hs"

text \<open>
  Lines 47 to 57. \<^verbatim>\<open>if results.multi_hand_landmarks:\<close> is false for \<^verbatim>\<open>None\<close> and for
  an empty list.
\<close>

definition landmarks_data :: "'f results \<Rightarrow> 'f json list" where
  "landmarks_data res =
     (case multi_hand_landmarks res of
        None \<Rightarrow> []
      | Some hs \<Rightarrow> if hs = [] then [] else hands_loop [] hs)"

text \<open>Lines 59 to 63.\<close>

definition success_response :: "'f json list \<Rightarrow> 'f response" where
  "success_response ld =
     jsonify (JObj [(''success'', JBool True), (''landmarks'', JArr ld),
                    (''hand_count'', JInt (int (length ld)))])"

text \<open>Lines 66 to 69.\<close>

definition error_response :: "exn \<Rightarrow> 'f response" where
  "error_response e = jsonify (JObj [(''success'', JBool False), (''error'', JStr (str_exn e))])"

text \<open>
  The handler. A view function either returns a response or lets an exception out
  (\<open>Inl\<close>); the \<^verbatim>\<open>try\<close> block is lines 28 to 63, the \<^verbatim>\<open>except Exception as e\<close> clause
  lines 65 to 69. The second component is the detector's state after the request.
\<close>

definition process_frame ::
  "('f, 'img, 'd) env \<Rightarrow> 'd \<Rightarrow> exn + 'f json \<Rightarrow> (exn + 'f response) \<times> 'd" where
  "process_frame E d request_json =
     (case detect E d request_json of
        (Inr res, d') \<Rightarrow> (Inr (success_response (landmarks_data res)), d')
      | (Inl e, d') \<Rightarrow> (Inr (error_response e), d'))"

section \<open>The live path: hand_tracking.py\<close>

text \<open>
  What the camera, the window system and the keyboard answer during one pass of the
  loop: \<^verbatim>\<open>cap.isOpened()\<close> at the loop head, then \<^verbatim>\<open>cap.read()\<close>, \<^verbatim>\<open>cv2.imshow\<close>
  (which returns nothing, or raises) and \<^verbatim>\<open>cv2.waitKey(1)\<close>. A run of the program is
  driven by the list of these answers, one element for each pass; an answer that a pass
  never asks for is ignored.
\<close>

record 'img pass =
  cap_isOpened :: bool
  cap_read :: "bool \<times> 'img"
  imshow :: "exn + unit"
  waitKey :: int

text \<open>What the program does to the outside, in order.\<close>

datatype ('f, 'img) event =
    Print string
  | Process 'img
  | Draw "'f hand_landmarks"
  | Show string 'img
  | Release
  | DestroyAllWindows

text \<open>
  How one pass of the loop body ends: at its end or at \<^verbatim>\<open>continue\<close> (with the
  detector's state), at \<^verbatim>\<open>break\<close>, or with an exception, which nothing catches.
\<close>

datatype 'd step = Continue 'd | Break | Raise exn

text \<open>
  How a run ends: normally, with an uncaught exception, or not within the passes given
  (the loop is back at its head and the answers have run out).
\<close>

datatype outcome = Exited | Crashed exn | Running

text \<open>Lines 32 to 34: one call for each hand, each on the frame the last one left.\<close>

fun draw_loop ::
  "('f, 'img, 'd) env \<Rightarrow> 'img \<Rightarrow> 'f hand_landmarks list \<Rightarrow> ('f, 'img) event list \<times> (exn + 'img)" where
  "draw_loop E frame [] = ([], Inr frame)"
| "draw_loop E frame (h # hs) =
     (case draw_landmarks E frame h of
        Inl e \<Rightarrow> ([Draw h], Inl e)
      | Inr frame' \<Rightarrow> (Draw h # fst (draw_loop E frame' hs), snd (draw_loop E frame' hs)))"

text \<open>Lines 31 to 34.\<close>

definition draw_results ::
  "('f, 'img, 'd) env \<Rightarrow> 'img \<Rightarrow> 'f results \<Rightarrow> ('f, 'img) event list \<times> (exn + 'img)" where
  "draw_results E frame res =
     (case multi_hand_landmarks res of
        None \<Rightarrow> ([], Inr frame)
      | Some hs \<Rightarrow> if hs = [] then ([], Inr frame) else draw_loop E frame hs)"

text \<open>Lines 19 to 41: the loop body.\<close>

definition loop_body ::
  "('f, 'img, 'd) env \<Rightarrow> 'd \<Rightarrow> 'img pass \<Rightarrow> ('f, 'img) event list \<times> 'd step" where
  "loop_body E d p =
     (case cap_read p of (success, frame) \<Rightarrow>
        if \<not> success then ([Print ''Ignoring empty camera frame.''], Continue d)
        else
          (case cvtColor E frame of
             Inl e \<Rightarrow> ([], Raise e)
           | Inr rgb \<Rightarrow>
               (case process E tracking_hands d rgb of
                  (Inl e, d') \<Rightarrow> ([Process rgb], Raise e)
                | (Inr res, d') \<Rightarrow>
                    (case draw_results E frame res of
                       (evs, Inl e) \<Rightarrow> (Process rgb # evs, Raise e)
                     | (evs, Inr frame') \<Rightarrow>
                         (case imshow p of
                            Inl e \<Rightarrow> (Process rgb # evs @ [Show ''Hand Tracking'' frame'], Raise e)
                          | Inr _ \<Rightarrow>
                              (Process rgb # evs @ [Show ''Hand Tracking'' frame'],
                               if waitKey p AND 0xFF = 27 then Break else Continue d'))))))"

text \<open>Lines 18 to 41: \<^verbatim>\<open>while cap.isOpened():\<close> around the body.\<close>

fun capture_loop ::
  "('f, 'img, 'd) env \<Rightarrow> 'd \<Rightarrow> 'img pass list \<Rightarrow> ('f, 'img) event list \<times> outcome" where
  "capture_loop E d [] = ([], Running)"
| "capture_loop E d (p # ps) =
     (if \<not> cap_isOpened p then ([], Exited)
      else
        (case loop_body E d p of
           (evs, Continue d') \<Rightarrow> (evs @ fst (capture_loop E d' ps), snd (capture_loop E d' ps))
         | (evs, Break) \<Rightarrow> (evs, Exited)
         | (evs, Raise e) \<Rightarrow> (evs, Crashed e)))"

text \<open>
  What \<^verbatim>\<open>cap.release()\<close> and \<^verbatim>\<open>cv2.destroyAllWindows()\<close> answer after the loop: each
  returns nothing, or raises.
\<close>

record closing =
  cap_release :: "exn + unit"
  destroyAllWindows :: "exn + unit"

text \<open>
  The whole script, lines 16 to 44: the loop, then \<^verbatim>\<open>cap.release()\<close> and
  \<^verbatim>\<open>cv2.destroyAllWindows()\<close>. Nothing in the script catches an exception: one raised
  in the loop ends the run before line 43, one raised by \<^verbatim>\<open>cap.release()\<close> ends it
  before line 44, and one raised by \<^verbatim>\<open>cv2.destroyAllWindows()\<close> ends it there.
\<close>

definition hand_tracking ::
  "('f, 'img, 'd) env \<Rightarrow> 'd \<Rightarrow> 'img pass list \<Rightarrow> closing \<Rightarrow> ('f, 'img) event list \<times> outcome" where
  "hand_tracking E d passes fin =
     (case capture_loop E d passes of
        (evs, Exited) \<Rightarrow>
          (case cap_release fin of
             Inl e \<Rightarrow> (evs @ [Release], Crashed e)
           | Inr _ \<Rightarrow>
               (case destroyAllWindows fin of
                  Inl e \<Rightarrow> (evs @ [Release, DestroyAllWindows], Crashed e)
                | Inr _ \<Rightarrow> (evs @ [Release, DestroyAllWindows], Exited)))
      | (evs, Crashed e) \<Rightarrow> (evs, Crashed e)
      | (evs, Running) \<Rightarrow> (evs, Running))"

section \<open>Reading a response, and what the claims speak of\<close>

text \<open>A field of the JSON object a client receives; \<open>None\<close> when the body has no such field.\<close>

definition field :: "string \<Rightarrow> 'f response \<Rightarrow> 'f json option" where
  "field k r = (case body r of JObj kvs \<Rightarrow> map_of kvs k | _ \<Rightarrow> None)"

text \<open>The hands of a detection result, in the detector's order: none when the list is absent.\<close>

definition detected_hands :: "'f results \<Rightarrow> 'f hand_landmarks list" where
  "detected_hands res = (case multi_hand_landmarks res of None \<Rightarrow> [] | Some hs \<Rightarrow> hs)"

text \<open>
  The specification's reading of section 4.1, ``strips any data-URL prefix'': the prefix
  of a data URL ends at its first comma, and a string with no comma has no prefix to
  strip. This definition follows the specification's words, not the code.
\<close>

definition data_url_remainder :: "string \<Rightarrow> string" where
  "data_url_remainder s =
     (if CHR '','' \<in> set s then tl (dropWhile (\<lambda>c. c \<noteq> CHR '','') s) else s)"

text \<open>
  The preconditions on the external detector that the specification's section 3 leaves
  to the library: at most the configured number of hands, and 21 landmarks for each.
\<close>

definition honors_max :: "('f, 'img, 'd) env \<Rightarrow> bool" where
  "honors_max E =
     (\<forall>cfg d img res d'. process E cfg d img = (Inr res, d') \<longrightarrow>
        length (detected_hands res) \<le> max_num_hands cfg)"

definition gives_21_landmarks :: "('f, 'img, 'd) env \<Rightarrow> bool" where
  "gives_21_landmarks E =
     (\<forall>cfg d img res d'. process E cfg d img = (Inr res, d') \<longrightarrow>
        (\<forall>h \<in> set (detected_hands res). length (landmark h) = 21))"




section \<open>A sample library, to run the model on concrete inputs\<close>

text \<open>
  Frames and detector states are numbered by natural numbers. The sample decoder knows
  one string: \<^verbatim>\<open>AAAA\<close> is three zero bytes. It rejects every other string for its
  padding, as \<^verbatim>\<open>base64.b64decode\<close> does \<^verbatim>\<open>AAA\<close>.
\<close>

definition sample_b64decode :: "string \<Rightarrow> exn + byte list" where
  "sample_b64decode s =
     (if s = ''AAAA'' then Inr [0, 0, 0]
      else Inl (LibraryError ''Incorrect padding''))"

definition sample_env ::
  "(hands_config \<Rightarrow> nat \<Rightarrow> nat \<Rightarrow> (exn + real results) \<times> nat) \<Rightarrow> (real, nat, nat) env" where
  "sample_env proc =
     \<lparr>b64decode = sample_b64decode, imdecode = (\<lambda>bs. Inr (length bs)),
      cvtColor = (\<lambda>img. Inr img), process = proc,
      draw_landmarks = (\<lambda>img h. Inr (Suc img))\<rparr>"

definition sample_hand :: "real \<Rightarrow> real hand_landmarks" where
  "sample_hand c = NormalizedLandmarkList (replicate 21 (Landmark c (c / 2) 0))"

text \<open>
  Two sample detectors: one sees three hands and reports as many as it may, the other
  sees none.
\<close>

definition finds_hands :: "hands_config \<Rightarrow> nat \<Rightarrow> nat \<Rightarrow> (exn + real results) \<times> nat" where
  "finds_hands cfg d img =
     (Inr \<lparr>multi_hand_landmarks =
        Some (take (max_num_hands cfg) [sample_hand 0.25, sample_hand 0.5, sample_hand 0.75])\<rparr>, Suc d)"

definition finds_nothing :: "hands_config \<Rightarrow> nat \<Rightarrow> nat \<Rightarrow> (exn + real results) \<times> nat" where
  "finds_nothing cfg d img = (Inr \<lparr>multi_hand_landmarks = None\<rparr>, Suc d)"

definition sample_request :: "exn + real json" where
  "sample_request = Inr (JObj [(''image'', JStr ''data:image/jpeg;base64,AAAA'')])"

definition two_hands_result :: "real results" where
  "two_hands_result = \<lparr>multi_hand_landmarks = Some [sample_hand 0.25, sample_hand 0.5]\<rparr>"

text \<open>
  Three sample passes of the live loop: the camera is open but gives no frame; the camera
  gives a frame and the keyboard a key code; the camera is not open.
\<close>

definition no_frame :: "nat pass" where
  "no_frame = \<lparr>cap_isOpened = True, cap_read = (False, 0), imshow = Inr (), waitKey = - 1\<rparr>"

definition frame_and_key :: "nat \<Rightarrow> int \<Rightarrow> nat pass" where
  "frame_and_key img key = \<lparr>cap_isOpened = True, cap_read = (True, img), imshow = Inr (), waitKey = key\<rparr>"

definition camera_closed :: "nat pass" where
  "camera_closed = \<lparr>cap_isOpened = False, cap_read = (False, 0), imshow = Inr (), waitKey = - 1\<rparr>"

text \<open>
  Two ends of a run: both closing calls return; or \<^verbatim>\<open>cv2.destroyAllWindows()\<close> raises
  \<^verbatim>\<open>cv2.error\<close>, as it does on an OpenCV build without window support (the text is
  shortened to its first two sentences).
\<close>

definition clean_end :: closing where
  "clean_end = \<lparr>cap_release = Inr (), destroyAllWindows = Inr ()\<rparr>"

definition no_window_support :: closing where
  "no_window_support =
     \<lparr>cap_release = Inr (),
      destroyAllWindows = Inl (LibraryError ''The function is not implemented. Rebuild the library with Windows, GTK+ 2.x or Cocoa support.'')\<rparr>"

section \<open>The shaping loops and the handler's two exits\<close>

lemma hand_loop_append: "hand_loop acc ls = acc @ map landmark_record ls"
  by (induction ls arbitrary: acc) simp_all

lemma hands_loop_append:
  "hands_loop acc hs = acc @ map (\<lambda>h. JArr (map landmark_record (landmark h))) hs"
  by (induction hs arbitrary: acc) (simp_all add: hand_loop_append)

lemma landmarks_data_map:
  "landmarks_data res = map (\<lambda>h. JArr (map landmark_record (landmark h))) (detected_hands res)"
  by (simp add: landmarks_data_def detected_hands_def hands_loop_append split: option.split)

lemma field_success_response:
  "field ''success'' (success_response ld) = Some (JBool True)"
  "field ''landmarks'' (success_response ld) = Some (JArr ld)"
  "field ''hand_count'' (success_response ld) = Some (JInt (int (length ld)))"
  "field ''error'' (success_response ld) = None"
  by (simp_all add: field_def success_response_def jsonify_def)

lemma field_error_response:
  "field ''success'' (error_response e) = Some (JBool False)"
  "field ''landmarks'' (error_response e) = None"
  "field ''hand_count'' (error_response e) = None"
  "field ''error'' (error_response e) = Some (JStr (str_exn e))"
  by (simp_all add: field_def error_response_def jsonify_def)

lemma process_frame_Inr:
  "detect E d req = (Inr res, d') \<Longrightarrow>
     process_frame E d req = (Inr (success_response (landmarks_data res)), d')"
  by (simp add: process_frame_def)

lemma process_frame_Inl:
  "detect E d req = (Inl e, d') \<Longrightarrow> process_frame E d req = (Inr (error_response e), d')"
  by (simp add: process_frame_def)

lemma success_origin:
  assumes "fst (process_frame E d req) = Inr r" and "field ''success'' r = Some (JBool True)"
  shows "\<exists>res d'. detect E d req = (Inr res, d') \<and> r = success_response (landmarks_data res)"
proof (cases "detect E d req")
  case (Pair a d')
  show ?thesis
  proof (cases a)
    case (Inl e)
    with Pair assms show ?thesis by (auto simp add: process_frame_Inl field_error_response)
  next
    case (Inr res)
    with Pair assms show ?thesis by (auto simp add: process_frame_Inr)
  qed
qed

lemma sample_rgb: "rgb_frame (sample_env proc) sample_request = Inr 3"
  by (simp add: rgb_frame_def sample_request_def bind_exn_def image_bytes_def image_payload_def
      sample_env_def sample_b64decode_def list_index_def)

lemma sample_detect: "detect (sample_env proc) d sample_request = proc app_hands d 3"
  by (simp add: detect_def sample_rgb) (simp add: sample_env_def)

lemma sample_finds_two:
  "detect (sample_env finds_hands) 0 sample_request = (Inr two_hands_result, 1)"
  by (simp add: sample_detect finds_hands_def app_hands_def two_hands_result_def)

lemma sample_two_response:
  "fst (process_frame (sample_env finds_hands) 0 sample_request) =
     Inr (success_response (landmarks_data two_hands_result))"
  by (simp add: process_frame_Inr [OF sample_finds_two])

lemma sample_missing_key:
  "detect (sample_env proc) 0 (Inr (JObj [])) = (Inl (KeyError ''image''), 0)"
  by (simp add: detect_def rgb_frame_def bind_exn_def)

lemma sample_honors_max: "honors_max (sample_env finds_hands)"
  by (auto simp add: honors_max_def sample_env_def finds_hands_def detected_hands_def)

lemma sample_gives_21: "gives_21_landmarks (sample_env finds_hands)"
  by (auto simp add: gives_21_landmarks_def sample_env_def finds_hands_def detected_hands_def
      sample_hand_def dest!: in_set_takeD)

lemma detect_Inr_process:
  "detect E d req = (Inr res, d') \<Longrightarrow> \<exists>rgb. process E app_hands d rgb = (Inr res, d')"
  by (auto simp add: detect_def split: sum.splits)

lemma str_split_unfold:
  "str_split sep s =
     takeWhile (\<lambda>c. c \<noteq> sep) s #
       (if sep \<in> set s then str_split sep (tl (dropWhile (\<lambda>c. c \<noteq> sep) s)) else [])"
proof (induction s)
  case Nil
  show ?case by simp
next
  case (Cons c cs)
  show ?case
  proof (cases "c = sep")
    case True
    then show ?thesis by simp
  next
    case False
    then show ?thesis by (subst str_split.simps, subst Cons.IH) simp
  qed
qed

lemma str_split_not_Nil: "str_split sep s \<noteq> []"
  by (subst str_split_unfold) simp

lemma hd_str_split: "hd (str_split sep s) = takeWhile (\<lambda>c. c \<noteq> sep) s"
  by (subst str_split_unfold) simp

lemma image_payload_JStr:
  "image_payload (JStr s) =
     (if CHR '','' \<in> set s
      then Inr (takeWhile (\<lambda>c. c \<noteq> CHR '','') (data_url_remainder s))
      else Inl (IndexError ''list index out of range''))"
proof (cases "CHR '','' \<in> set s")
  case True
  have eq: "str_split CHR '','' s =
      takeWhile (\<lambda>c. c \<noteq> CHR '','') s # str_split CHR '','' (data_url_remainder s)"
    using True str_split_unfold [of "CHR '',''" s] by (simp add: data_url_remainder_def)
  obtain w ws where ws: "str_split CHR '','' (data_url_remainder s) = w # ws"
    using str_split_not_Nil [of "CHR '',''" "data_url_remainder s"]
    by (cases "str_split CHR '','' (data_url_remainder s)") auto
  with hd_str_split [of "CHR '',''" "data_url_remainder s"]
  have "w = takeWhile (\<lambda>c. c \<noteq> CHR '','') (data_url_remainder s)" by simp
  with True eq ws show ?thesis
    by (simp add: image_payload_def bind_exn_def list_index_def)
next
  case False
  then have "str_split CHR '','' s = [takeWhile (\<lambda>c. c \<noteq> CHR '','') s]"
    using str_split_unfold [of "CHR '',''" s] by simp
  with False show ?thesis
    by (simp add: image_payload_def bind_exn_def list_index_def)
qed

lemma image_bytes_JStr:
  "image_bytes E (JStr s) =
     (if CHR '','' \<in> set s
      then b64decode E (takeWhile (\<lambda>c. c \<noteq> CHR '','') (data_url_remainder s))
      else Inl (IndexError ''list index out of range''))"
  unfolding image_bytes_def image_payload_JStr by (simp add: bind_exn_def)

lemma takeWhile_absent: "c \<notin> set xs \<Longrightarrow> takeWhile (\<lambda>x. x \<noteq> c) xs = xs"
  by (induction xs) auto




lemma sample_process_two:
  "process (sample_env finds_hands) app_hands 0 3 = (Inr two_hands_result, 1)"
  by (simp add: sample_env_def finds_hands_def app_hands_def two_hands_result_def)

section \<open>The web path's claims\<close>

text \<open>
  C2. In every success response of POST \<^verbatim>\<open>/process_frame\<close>, the \<^verbatim>\<open>hand_count\<close> field is
  the length of the \<^verbatim>\<open>landmarks\<close> list.
\<close>

theorem hand_count_is_length:
  assumes "fst (process_frame E d req) = Inr r" and "field ''success'' r = Some (JBool True)"
  shows "\<exists>ld. field ''landmarks'' r = Some (JArr ld) \<and>
              field ''hand_count'' r = Some (JInt (int (length ld)))"
proof -
  from success_origin [OF assms] obtain res where "r = success_response (landmarks_data res)"
    by blast
  then show ?thesis by (simp add: field_success_response)
qed

theorem hand_count_is_length_witness:
  "fst (process_frame (sample_env finds_hands) 0 sample_request) =
     Inr (success_response (landmarks_data two_hands_result)) \<and>
   field ''success'' (success_response (landmarks_data two_hands_result)) = Some (JBool True) \<and>
   (\<exists>ld. field ''landmarks'' (success_response (landmarks_data two_hands_result)) = Some (JArr ld) \<and>
      field ''hand_count'' (success_response (landmarks_data two_hands_result)) =
        Some (JInt (int (length ld))))"
  by (intro conjI sample_two_response field_success_response(1)
      hand_count_is_length [OF sample_two_response field_success_response(1)])

text \<open>
  C3. If the detector returns exactly 21 landmarks for each hand, every entry of the
  \<^verbatim>\<open>landmarks\<close> list of a success response is a list of exactly 21 records, each with
  numeric fields \<^verbatim>\<open>x\<close>, \<^verbatim>\<open>y\<close> and \<^verbatim>\<open>z\<close>.
\<close>

theorem every_hand_has_21_records:
  assumes "gives_21_landmarks E"
    and "fst (process_frame E d req) = Inr r" and "field ''success'' r = Some (JBool True)"
  shows "\<exists>ld. field ''landmarks'' r = Some (JArr ld) \<and>
           (\<forall>entry \<in> set ld. \<exists>recs. entry = JArr recs \<and> length recs = 21 \<and>
              (\<forall>rec \<in> set recs. \<exists>a b c.
                 rec = JObj [(''x'', JFloat a), (''y'', JFloat b), (''z'', JFloat c)]))"
proof -
  from success_origin [OF assms(2,3)] obtain res d'
    where det: "detect E d req = (Inr res, d')" and r: "r = success_response (landmarks_data res)"
    by blast
  from detect_Inr_process [OF det] assms(1)
  have "\<forall>h \<in> set (detected_hands res). length (landmark h) = 21"
    unfolding gives_21_landmarks_def by blast
  then show ?thesis
    unfolding r by (auto simp add: field_success_response landmarks_data_map landmark_record_def)
qed

theorem every_hand_has_21_records_witness:
  "gives_21_landmarks (sample_env finds_hands) \<and>
   fst (process_frame (sample_env finds_hands) 0 sample_request) =
     Inr (success_response (landmarks_data two_hands_result)) \<and>
   field ''success'' (success_response (landmarks_data two_hands_result)) = Some (JBool True) \<and>
   (\<exists>ld. field ''landmarks'' (success_response (landmarks_data two_hands_result)) = Some (JArr ld) \<and>
           (\<forall>entry \<in> set ld. \<exists>recs. entry = JArr recs \<and> length recs = 21 \<and>
              (\<forall>rec \<in> set recs. \<exists>a b c.
                 rec = JObj [(''x'', JFloat a), (''y'', JFloat b), (''z'', JFloat c)])))"
  by (intro conjI sample_gives_21 sample_two_response field_success_response(1)
      every_hand_has_21_records [OF sample_gives_21 sample_two_response field_success_response(1)])

text \<open>
  C6. When the detector processes the frame and finds no hand (its list of hands is
  absent or empty), the response has \<^verbatim>\<open>success\<close> true, \<^verbatim>\<open>hand_count\<close> 0 and an empty
  \<^verbatim>\<open>landmarks\<close> list.
\<close>

theorem no_hand_gives_empty_landmarks:
  assumes "detect E d req = (Inr res, d')"
    and "multi_hand_landmarks res = None \<or> multi_hand_landmarks res = Some []"
  shows "\<exists>r. fst (process_frame E d req) = Inr r \<and> status r = 200 \<and>
           field ''success'' r = Some (JBool True) \<and>
           field ''hand_count'' r = Some (JInt 0) \<and>
           field ''landmarks'' r = Some (JArr [])"
proof -
  from assms(2) have "landmarks_data res = []" by (auto simp add: landmarks_data_def)
  with process_frame_Inr [OF assms(1)] show ?thesis
    by (simp add: field_success_response) (simp add: success_response_def jsonify_def)
qed

theorem no_hand_gives_empty_landmarks_witness:
  "detect (sample_env finds_nothing) 0 sample_request = (Inr \<lparr>multi_hand_landmarks = None\<rparr>, 1) \<and>
   (\<exists>r. fst (process_frame (sample_env finds_nothing) 0 sample_request) = Inr r \<and> status r = 200 \<and>
           field ''success'' r = Some (JBool True) \<and>
           field ''hand_count'' r = Some (JInt 0) \<and>
           field ''landmarks'' r = Some (JArr []))"
proof -
  have a: "detect (sample_env finds_nothing) 0 sample_request = (Inr \<lparr>multi_hand_landmarks = None\<rparr>, 1)"
    by (simp add: sample_detect finds_nothing_def)
  from no_hand_gives_empty_landmarks [OF a] a show ?thesis by simp
qed

text \<open>
  C7. Both entry points build the detector with at most 2 hands and both confidence
  thresholds 0.7; if the detector honours its configured maximum, a success response of
  POST \<^verbatim>\<open>/process_frame\<close> reports at most 2 hands, in \<^verbatim>\<open>hand_count\<close> and in the length of
  \<^verbatim>\<open>landmarks\<close>, and any other response reports no hands at all.
\<close>

theorem at_most_two_hands:
  assumes "honors_max E" and "fst (process_frame E d req) = Inr r"
  shows "max_num_hands app_hands = 2 \<and> min_detection_confidence app_hands = 0.7 \<and>
         min_tracking_confidence app_hands = 0.7 \<and>
         max_num_hands tracking_hands = 2 \<and> min_detection_confidence tracking_hands = 0.7 \<and>
         min_tracking_confidence tracking_hands = 0.7 \<and>
         (field ''success'' r = Some (JBool True) \<longrightarrow>
            (\<exists>ld. field ''landmarks'' r = Some (JArr ld) \<and> length ld \<le> 2 \<and>
               (\<exists>n. field ''hand_count'' r = Some (JInt n) \<and> n \<le> 2))) \<and>
         (field ''success'' r \<noteq> Some (JBool True) \<longrightarrow>
            field ''landmarks'' r = None \<and> field ''hand_count'' r = None)"
proof -
  have cfg: "max_num_hands app_hands = 2 \<and> min_detection_confidence app_hands = 0.7 \<and>
         min_tracking_confidence app_hands = 0.7 \<and>
         max_num_hands tracking_hands = 2 \<and> min_detection_confidence tracking_hands = 0.7 \<and>
         min_tracking_confidence tracking_hands = 0.7"
    by (simp add: app_hands_def tracking_hands_def)
  have ok: "\<exists>ld. field ''landmarks'' r = Some (JArr ld) \<and> length ld \<le> 2 \<and>
               (\<exists>n. field ''hand_count'' r = Some (JInt n) \<and> n \<le> 2)"
    if s: "field ''success'' r = Some (JBool True)"
  proof -
    from success_origin [OF assms(2) s] obtain res d'
      where det: "detect E d req = (Inr res, d')" and r: "r = success_response (landmarks_data res)"
      by blast
    from detect_Inr_process [OF det] assms(1)
    have "length (detected_hands res) \<le> max_num_hands app_hands"
      unfolding honors_max_def by blast
    then have "length (landmarks_data res) \<le> 2"
      by (simp add: landmarks_data_map app_hands_def)
    then show ?thesis unfolding r by (simp add: field_success_response)
  qed
  have err: "field ''landmarks'' r = None \<and> field ''hand_count'' r = None"
    if s: "field ''success'' r \<noteq> Some (JBool True)"
  proof (cases "detect E d req")
    case (Pair a d')
    show ?thesis
    proof (cases a)
      case (Inl e)
      with Pair assms(2) show ?thesis by (auto simp add: process_frame_Inl field_error_response)
    next
      case (Inr res)
      with Pair assms(2) s show ?thesis by (auto simp add: process_frame_Inr field_success_response)
    qed
  qed
  from cfg ok err show ?thesis by blast
qed

theorem at_most_two_hands_witness:
  "honors_max (sample_env finds_hands) \<and>
   fst (process_frame (sample_env finds_hands) 0 sample_request) =
     Inr (success_response (landmarks_data two_hands_result)) \<and>
   field ''success'' (success_response (landmarks_data two_hands_result)) = Some (JBool True) \<and>
   (\<exists>ld. field ''landmarks'' (success_response (landmarks_data two_hands_result)) = Some (JArr ld) \<and>
      length ld \<le> 2 \<and>
      (\<exists>n. field ''hand_count'' (success_response (landmarks_data two_hands_result)) = Some (JInt n) \<and> n \<le> 2)) \<and>
   fst (process_frame (sample_env finds_hands) 0 (Inr (JObj []))) = Inr (error_response (KeyError ''image'')) \<and>
   field ''success'' (error_response (KeyError ''image'') :: real response) \<noteq> Some (JBool True) \<and>
   field ''landmarks'' (error_response (KeyError ''image'') :: real response) = None \<and>
   field ''hand_count'' (error_response (KeyError ''image'') :: real response) = None"
proof -
  have e: "fst (process_frame (sample_env finds_hands) 0 (Inr (JObj []))) = Inr (error_response (KeyError ''image''))"
    by (simp add: process_frame_Inl [OF sample_missing_key])
  have s: "field ''success'' (success_response (landmarks_data two_hands_result)) = Some (JBool True)"
    by (rule field_success_response(1))
  have n: "field ''success'' (error_response (KeyError ''image'') :: real response) \<noteq> Some (JBool True)"
    by (simp add: field_error_response)
  from at_most_two_hands [OF sample_honors_max sample_two_response] at_most_two_hands [OF sample_honors_max e] s n
    sample_honors_max sample_two_response e
  show ?thesis by blast
qed



text \<open>
  C4. The shaping keeps order and values: when the pipeline reaches the detector and the
  detector returns a result, the \<^verbatim>\<open>landmarks\<close> field of the response is a list with one
  entry for each hand; its i-th entry belongs to the i-th hand of the detector, the j-th
  record of that entry to that hand's j-th landmark, and the record's \<^verbatim>\<open>x\<close>, \<^verbatim>\<open>y\<close>,
  \<^verbatim>\<open>z\<close> are that landmark's coordinates, unchanged.
\<close>

theorem shaping_keeps_order_and_values:
  assumes "rgb_frame E req = Inr rgb" and "process E app_hands d rgb = (Inr res, d')"
  shows "\<exists>r ld. process_frame E d req = (Inr r, d') \<and>
           field ''success'' r = Some (JBool True) \<and>
           field ''landmarks'' r = Some (JArr ld) \<and>
           length ld = length (detected_hands res) \<and>
           (\<forall>i < length ld. \<exists>recs. ld ! i = JArr recs \<and>
              length recs = length (landmark (detected_hands res ! i)) \<and>
              (\<forall>j < length recs. recs ! j =
                 JObj [(''x'', JFloat (lm_x (landmark (detected_hands res ! i) ! j))),
                       (''y'', JFloat (lm_y (landmark (detected_hands res ! i) ! j))),
                       (''z'', JFloat (lm_z (landmark (detected_hands res ! i) ! j)))]))"
proof -
  let ?ld = "map (\<lambda>h. JArr (map landmark_record (landmark h))) (detected_hands res)"
  from assms have "detect E d req = (Inr res, d')" by (simp add: detect_def)
  then have "process_frame E d req = (Inr (success_response ?ld), d')"
    using process_frame_Inr by (simp add: landmarks_data_map)
  moreover have "field ''success'' (success_response ?ld) = Some (JBool True)"
    and "field ''landmarks'' (success_response ?ld) = Some (JArr ?ld)"
    by (rule field_success_response)+
  moreover have "length ?ld = length (detected_hands res)" by simp
  moreover have "\<forall>i < length ?ld. \<exists>recs. ?ld ! i = JArr recs \<and>
              length recs = length (landmark (detected_hands res ! i)) \<and>
              (\<forall>j < length recs. recs ! j =
                 JObj [(''x'', JFloat (lm_x (landmark (detected_hands res ! i) ! j))),
                       (''y'', JFloat (lm_y (landmark (detected_hands res ! i) ! j))),
                       (''z'', JFloat (lm_z (landmark (detected_hands res ! i) ! j)))])"
    by (simp add: landmark_record_def)
  ultimately show ?thesis by blast
qed

theorem shaping_keeps_order_and_values_witness:
  "rgb_frame (sample_env finds_hands) sample_request = Inr 3 \<and>
   process (sample_env finds_hands) app_hands 0 3 = (Inr two_hands_result, 1) \<and>
   (\<exists>r ld. process_frame (sample_env finds_hands) 0 sample_request = (Inr r, 1) \<and>
           field ''success'' r = Some (JBool True) \<and>
           field ''landmarks'' r = Some (JArr ld) \<and>
           length ld = length (detected_hands two_hands_result) \<and>
           (\<forall>i < length ld. \<exists>recs. ld ! i = JArr recs \<and>
              length recs = length (landmark (detected_hands two_hands_result ! i)) \<and>
              (\<forall>j < length recs. recs ! j =
                 JObj [(''x'', JFloat (lm_x (landmark (detected_hands two_hands_result ! i) ! j))),
                       (''y'', JFloat (lm_y (landmark (detected_hands two_hands_result ! i) ! j))),
                       (''z'', JFloat (lm_z (landmark (detected_hands two_hands_result ! i) ! j)))])))"
  by (intro conjI sample_rgb sample_process_two
      shaping_keeps_order_and_values [OF sample_rgb sample_process_two])

text \<open>
  C5, as amended. For a request whose image string has exactly one comma (a data-URL
  prefix and a payload), the bytes handed to the image decompressor are the base64
  decoding of what follows the prefix: the pipeline is the decoding of that remainder,
  then \<^verbatim>\<open>imdecode\<close> on its bytes, then the colour conversion. An image string without a
  comma raises \<^verbatim>\<open>IndexError\<close> before anything is decoded, nothing reaches the
  decompressor, and the request is answered with the failure response.
\<close>

theorem remainder_is_decoded_and_handed_on:
  assumes "getitem data ''image'' = Inr (JStr s)"
  shows
    "(CHR '','' \<in> set s \<and> CHR '','' \<notin> set (data_url_remainder s) \<longrightarrow>
        image_bytes E (JStr s) = b64decode E (data_url_remainder s) \<and>
        rgb_frame E (Inr data) =
          bind_exn (b64decode E (data_url_remainder s))
            (\<lambda>bytes. bind_exn (imdecode E bytes) (cvtColor E)) \<and>
        (\<forall>bytes. b64decode E (data_url_remainder s) = Inr bytes \<longrightarrow>
           rgb_frame E (Inr data) = bind_exn (imdecode E bytes) (cvtColor E))) \<and>
     (CHR '','' \<notin> set s \<longrightarrow>
        image_bytes E (JStr s) = Inl (IndexError ''list index out of range'') \<and>
        rgb_frame E (Inr data) = Inl (IndexError ''list index out of range'') \<and>
        process_frame E d (Inr data) =
          (Inr \<lparr>status = 200,
                 body = JObj [(''success'', JBool False),
                              (''error'', JStr ''list index out of range'')]\<rparr>, d))"
proof (intro conjI impI)
  assume one: "CHR '','' \<in> set s \<and> CHR '','' \<notin> set (data_url_remainder s)"
  then show bytes: "image_bytes E (JStr s) = b64decode E (data_url_remainder s)"
    by (simp add: image_bytes_JStr takeWhile_absent)
  with assms show rgb: "rgb_frame E (Inr data) =
          bind_exn (b64decode E (data_url_remainder s))
            (\<lambda>bytes. bind_exn (imdecode E bytes) (cvtColor E))"
    by (simp add: rgb_frame_def bind_exn_def)
  show "\<forall>bytes. b64decode E (data_url_remainder s) = Inr bytes \<longrightarrow>
           rgb_frame E (Inr data) = bind_exn (imdecode E bytes) (cvtColor E)"
    unfolding rgb by (simp add: bind_exn_def)
next
  assume none: "CHR '','' \<notin> set s"
  then show bytes: "image_bytes E (JStr s) = Inl (IndexError ''list index out of range'')"
    by (simp add: image_bytes_JStr)
  with assms show rgb: "rgb_frame E (Inr data) = Inl (IndexError ''list index out of range'')"
    by (simp add: rgb_frame_def bind_exn_def)
  then have "detect E d (Inr data) = (Inl (IndexError ''list index out of range''), d)"
    by (simp add: detect_def)
  from process_frame_Inl [OF this]
  show "process_frame E d (Inr data) =
          (Inr \<lparr>status = 200,
                 body = JObj [(''success'', JBool False),
                              (''error'', JStr ''list index out of range'')]\<rparr>, d)"
    by (simp add: error_response_def jsonify_def)
qed

theorem remainder_is_decoded_and_handed_on_witness:
  "getitem (JObj [(''image'', JStr ''data:image/jpeg;base64,AAAA'')] :: real json) ''image''
     = Inr (JStr ''data:image/jpeg;base64,AAAA'') \<and>
   CHR '','' \<in> set ''data:image/jpeg;base64,AAAA'' \<and>
   CHR '','' \<notin> set (data_url_remainder ''data:image/jpeg;base64,AAAA'') \<and>
   b64decode (sample_env finds_nothing) (data_url_remainder ''data:image/jpeg;base64,AAAA'')
     = Inr [0, 0, 0] \<and>
   rgb_frame (sample_env finds_nothing) (Inr (JObj [(''image'', JStr ''data:image/jpeg;base64,AAAA'')]))
     = bind_exn (imdecode (sample_env finds_nothing) [0, 0, 0]) (cvtColor (sample_env finds_nothing)) \<and>
   getitem (JObj [(''image'', JStr ''AAAA'')] :: real json) ''image'' = Inr (JStr ''AAAA'') \<and>
   CHR '','' \<notin> set ''AAAA'' \<and>
   rgb_frame (sample_env finds_nothing) (Inr (JObj [(''image'', JStr ''AAAA'')]))
     = Inl (IndexError ''list index out of range'') \<and>
   process_frame (sample_env finds_nothing) 0 (Inr (JObj [(''image'', JStr ''AAAA'')])) =
     (Inr \<lparr>status = 200,
            body = JObj [(''success'', JBool False),
                         (''error'', JStr ''list index out of range'')]\<rparr>, 0)"
proof -
  have g1: "getitem (JObj [(''image'', JStr ''data:image/jpeg;base64,AAAA'')] :: real json) ''image''
     = Inr (JStr ''data:image/jpeg;base64,AAAA'')" by simp
  have g2: "getitem (JObj [(''image'', JStr ''AAAA'')] :: real json) ''image'' = Inr (JStr ''AAAA'')"
    by simp
  have r: "data_url_remainder ''data:image/jpeg;base64,AAAA'' = ''AAAA''"
    by (simp add: data_url_remainder_def)
  have a: "CHR '','' \<in> set ''data:image/jpeg;base64,AAAA''" by simp
  have b: "CHR '','' \<notin> set (data_url_remainder ''data:image/jpeg;base64,AAAA'')"
    unfolding r by simp
  have c: "CHR '','' \<notin> set ''AAAA''" by simp
  have d: "b64decode (sample_env finds_nothing) (data_url_remainder ''data:image/jpeg;base64,AAAA'')
     = Inr [0, 0, 0]"
    unfolding r by (simp add: sample_env_def sample_b64decode_def)
  from remainder_is_decoded_and_handed_on [OF g1, of "sample_env finds_nothing"] a b d
  have 1: "rgb_frame (sample_env finds_nothing)
       (Inr (JObj [(''image'', JStr ''data:image/jpeg;base64,AAAA'')]))
     = bind_exn (imdecode (sample_env finds_nothing) [0, 0, 0]) (cvtColor (sample_env finds_nothing))"
    by blast
  from remainder_is_decoded_and_handed_on [OF g2, of "sample_env finds_nothing" 0] c
  have 2: "rgb_frame (sample_env finds_nothing) (Inr (JObj [(''image'', JStr ''AAAA'')]))
     = Inl (IndexError ''list index out of range'') \<and>
   process_frame (sample_env finds_nothing) 0 (Inr (JObj [(''image'', JStr ''AAAA'')])) =
     (Inr \<lparr>status = 200,
            body = JObj [(''success'', JBool False),
                         (''error'', JStr ''list index out of range'')]\<rparr>, 0)"
    by blast
  from g1 a b d 1 g2 c 2 show ?thesis by blast
qed

text \<open>
  C5 as stated fails on an image string that has no data-URL prefix: what follows the
  (absent) prefix is the whole string, whose decoding is three zero bytes, but the
  handler decodes nothing and answers with the failure response.
\<close>

theorem string_without_prefix_is_not_decoded:
  "data_url_remainder ''AAAA'' = ''AAAA'' \<and>
   b64decode (sample_env finds_nothing) (data_url_remainder ''AAAA'') = Inr [0, 0, 0] \<and>
   image_bytes (sample_env finds_nothing) (JStr ''AAAA'')
     = Inl (IndexError ''list index out of range'') \<and>
   process_frame (sample_env finds_nothing) 0 (Inr (JObj [(''image'', JStr ''AAAA'')])) =
     (Inr \<lparr>status = 200,
            body = JObj [(''success'', JBool False),
                         (''error'', JStr ''list index out of range'')]\<rparr>, 0)"
  by (simp add: process_frame_def detect_def rgb_frame_def image_bytes_def image_payload_def
      bind_exn_def list_index_def data_url_remainder_def sample_env_def sample_b64decode_def
      error_response_def jsonify_def)

section \<open>The live loop, pass by pass\<close>

lemma loop_body_no_frame:
  "\<not> fst (cap_read p) \<Longrightarrow> loop_body E d p = ([Print ''Ignoring empty camera frame.''], Continue d)"
  by (cases "cap_read p") (simp add: loop_body_def)




lemma sample_runs:
  "capture_loop (sample_env finds_nothing) 0 [no_frame, frame_and_key 7 27] =
     ([Print ''Ignoring empty camera frame.'', Process 7, Show ''Hand Tracking'' 7], Exited)"
  "capture_loop (sample_env finds_nothing) 0 [frame_and_key 7 27] =
     ([Process 7, Show ''Hand Tracking'' 7], Exited)"
  "capture_loop (sample_env finds_nothing) 0 [no_frame, no_frame] =
     ([Print ''Ignoring empty camera frame.'', Print ''Ignoring empty camera frame.''], Running)"
  by (simp_all add: loop_body_def no_frame_def frame_and_key_def sample_env_def
      finds_nothing_def draw_results_def)








section \<open>The live path's claims\<close>

text \<open>
  C9. When a read of the camera yields no frame, the pass prints
  \<^verbatim>\<open>Ignoring empty camera frame.\<close> and does nothing else (no detector call, no drawing,
  no display, no exception), and the loop goes on with the next pass, the detector
  untouched.
\<close>

theorem failed_read_is_skipped:
  assumes "cap_isOpened p" and "\<not> fst (cap_read p)"
  shows "loop_body E d p = ([Print ''Ignoring empty camera frame.''], Continue d) \<and>
         capture_loop E d (p # ps) =
           (Print ''Ignoring empty camera frame.'' # fst (capture_loop E d ps),
            snd (capture_loop E d ps))"
  using assms by (simp add: loop_body_no_frame)

theorem failed_read_is_skipped_witness:
  "cap_isOpened no_frame \<and> \<not> fst (cap_read no_frame) \<and>
   loop_body (sample_env finds_nothing) 0 no_frame = ([Print ''Ignoring empty camera frame.''], Continue 0) \<and>
   capture_loop (sample_env finds_nothing) 0 [no_frame, frame_and_key 7 27] =
     ([Print ''Ignoring empty camera frame.'', Process 7, Show ''Hand Tracking'' 7], Exited)"
proof -
  have a: "cap_isOpened no_frame" and b: "\<not> fst (cap_read no_frame)"
    by (simp_all add: no_frame_def)
  from failed_read_is_skipped [OF a b, of "sample_env finds_nothing" 0 "[frame_and_key 7 27]"] a b
  show ?thesis by (simp del: capture_loop.simps add: sample_runs(2))
qed




text \<open>
  C10, as amended. If the capture handle is not open at startup, the loop runs no pass:
  the program never calls the detector and never shows a frame, and goes straight to
  \<^verbatim>\<open>cap.release()\<close> and \<^verbatim>\<open>cv2.destroyAllWindows()\<close>. It ends normally if both calls
  return; an exception raised by either is not caught and ends the run with it.
\<close>

theorem unopened_camera_runs_no_pass:
  assumes "\<not> cap_isOpened p"
  shows "capture_loop E d (p # ps) = ([], Exited) \<and>
         (cap_release fin = Inr () \<and> destroyAllWindows fin = Inr () \<longrightarrow>
            hand_tracking E d (p # ps) fin = ([Release, DestroyAllWindows], Exited)) \<and>
         (\<forall>e. cap_release fin = Inl e \<longrightarrow>
            hand_tracking E d (p # ps) fin = ([Release], Crashed e)) \<and>
         (\<forall>e. cap_release fin = Inr () \<and> destroyAllWindows fin = Inl e \<longrightarrow>
            hand_tracking E d (p # ps) fin = ([Release, DestroyAllWindows], Crashed e))"
  using assms by (simp add: hand_tracking_def)

theorem unopened_camera_runs_no_pass_witness:
  "\<not> cap_isOpened camera_closed \<and>
   cap_release clean_end = Inr () \<and> destroyAllWindows clean_end = Inr () \<and>
   capture_loop (sample_env finds_nothing) 0 [camera_closed, frame_and_key 7 27] = ([], Exited) \<and>
   hand_tracking (sample_env finds_nothing) 0 [camera_closed, frame_and_key 7 27] clean_end =
     ([Release, DestroyAllWindows], Exited) \<and>
   hand_tracking (sample_env finds_nothing) 0 [camera_closed, frame_and_key 7 27]
       \<lparr>cap_release = Inl (LibraryError ''release failed''), destroyAllWindows = Inr ()\<rparr> =
     ([Release], Crashed (LibraryError ''release failed'')) \<and>
   hand_tracking (sample_env finds_nothing) 0 [camera_closed, frame_and_key 7 27]
       \<lparr>cap_release = Inr (), destroyAllWindows = Inl (LibraryError ''no windows'')\<rparr> =
     ([Release, DestroyAllWindows], Crashed (LibraryError ''no windows''))"
proof -
  have a: "\<not> cap_isOpened camera_closed" by (simp add: camera_closed_def)
  have b: "cap_release clean_end = Inr () \<and> destroyAllWindows clean_end = Inr ()"
    by (simp add: clean_end_def)
  from unopened_camera_runs_no_pass
    [OF a, of "sample_env finds_nothing" 0 "[frame_and_key 7 27]" clean_end] a b
  have 1: "capture_loop (sample_env finds_nothing) 0 [camera_closed, frame_and_key 7 27] = ([], Exited) \<and>
     hand_tracking (sample_env finds_nothing) 0 [camera_closed, frame_and_key 7 27] clean_end =
       ([Release, DestroyAllWindows], Exited)"
    by blast
  from unopened_camera_runs_no_pass
    [OF a, of "sample_env finds_nothing" 0 "[frame_and_key 7 27]"
       "\<lparr>cap_release = Inl (LibraryError ''release failed''), destroyAllWindows = Inr ()\<rparr>"]
  have 2: "hand_tracking (sample_env finds_nothing) 0 [camera_closed, frame_and_key 7 27]
       \<lparr>cap_release = Inl (LibraryError ''release failed''), destroyAllWindows = Inr ()\<rparr> =
     ([Release], Crashed (LibraryError ''release failed''))"
    by simp
  from unopened_camera_runs_no_pass
    [OF a, of "sample_env finds_nothing" 0 "[frame_and_key 7 27]"
       "\<lparr>cap_release = Inr (), destroyAllWindows = Inl (LibraryError ''no windows'')\<rparr>"]
  have 3: "hand_tracking (sample_env finds_nothing) 0 [camera_closed, frame_and_key 7 27]
       \<lparr>cap_release = Inr (), destroyAllWindows = Inl (LibraryError ''no windows'')\<rparr> =
     ([Release, DestroyAllWindows], Crashed (LibraryError ''no windows''))"
    by simp
  from a b 1 2 3 show ?thesis by blast
qed

text \<open>
  C10 as stated fails where \<^verbatim>\<open>cv2.destroyAllWindows()\<close> raises, as on an OpenCV build
  without window support: with the camera not open, the run ends with that exception
  instead of ending cleanly.
\<close>

theorem closing_call_may_end_the_run_with_an_exception:
  "\<not> cap_isOpened camera_closed \<and>
   hand_tracking (sample_env finds_nothing) 0 [camera_closed] no_window_support =
     ([Release, DestroyAllWindows],
      Crashed (LibraryError ''The function is not implemented. Rebuild the library with Windows, GTK+ 2.x or Cocoa support.''))"
  by (simp add: hand_tracking_def camera_closed_def no_window_support_def)

end
